theory Spec2Isabelle
  imports Complex_Main "HOL-Library.Word" "HOL-Library.AList"
begin

section \<open>Data model of package energy\<close>

text \<open>
  The energy analyser of OTNS keeps, for every simulated node, the time its radio has
  spent in each radio state, and turns these times into energy with the power draw of
  the node's device model. Timestamps and elapsed times are Go \<^verbatim>\<open>uint64\<close> values and
  are 64-bit words here, so subtraction and addition wrap as they do in Go. Power draws
  and energies are \<^verbatim>\<open>float64\<close>; they are represented by real numbers, which is exact
  for storing, copying and comparing a draw with itself and idealises the rounding of
  the products and sums (no statement below relies on the rounding).

  Go maps are association lists: \<^term>\<open>map_of\<close> is the lookup, \<^const>\<open>AList.update\<close> the
  store, \<^const>\<open>AList.delete\<close> the builtin \<^verbatim>\<open>delete\<close>. The order of a list stands for
  the order in which the runtime happens to range over the map.
\<close>

type_synonym u64 = "64 word"

datatype error = PanicUnknownRadioState | NilPointerDereference | IndexOutOfRange

text \<open>
  Modelled from the spec: the type \<^verbatim>\<open>RadioStates\<close> is declared in package radiomodel,
  which is not among the sources. It is an integer type with the five named constants
  that the spec enumerates and the switch of \<^verbatim>\<open>ComputeRadioState\<close> lists. Any other
  value of the type is \<open>RadioOther\<close>; it reaches the \<^verbatim>\<open>default\<close> branch.
\<close>

datatype RadioStates =
  RadioDisabled | RadioSleep | RadioTx | RadioRx | RadioInvalid | RadioOther nat

text \<open>
  Modelled from the spec: the struct \<^verbatim>\<open>RadioStatus\<close> and the map type \<^verbatim>\<open>SpentTxMap\<close>
  are declared in package radiomodel as well. The fields are those \<^verbatim>\<open>newNode\<close> sets and
  the spec lists for a node's radio status: the state, the timestamp of the last
  accumulation, three accumulators and a map from transmit level to elapsed time. The
  accumulators receive the \<^verbatim>\<open>uint64\<close> delta by \<^verbatim>\<open>+=\<close>, so they are \<^verbatim>\<open>uint64\<close>; the
  levels are Go \<^verbatim>\<open>int\<close>s, which are only compared and so are integers here.
\<close>

type_synonym SpentTxMap = "(int \<times> u64) list"

record RadioStatus =
  State :: RadioStates
  SpentDisabled :: u64
  SpentSleep :: u64
  SpentRx :: u64
  SpentTx :: SpentTxMap
  Timestamp :: u64

text \<open>
  \<^verbatim>\<open>NodeMode\<close> is declared in package types; the one field the energy code reads is kept.
\<close>

record NodeMode =
  RxOnWhenIdle :: bool

record DeviceModel =
  Name :: string
  Description :: string
  RxConsumption :: real
  SleepConsumption :: real
  DisabledConsumption :: real
  TxPowerConsumption :: "(int \<times> real) list"

text \<open>
  The registry \<^verbatim>\<open>DeviceModels\<close> is a process-wide map from model name to a pointer to
  the model. No code replaces an entry, so a \<^verbatim>\<open>*DeviceModel\<close> is identified with the
  registry key it was read from, and \<open>None\<close> is the nil pointer. The models themselves
  are written to (the cache of \<^verbatim>\<open>FindAndAddTxPowerConsumption\<close>), so the registry is
  passed to and returned by the functions that reach it.
\<close>

type_synonym Registry = "(string \<times> DeviceModel) list"

text \<open>
  A node holds pointers to its transmit power and its node mode, both owned by the
  simulation, which may change the cells between two calls. The cells are read through
  a heap that is a parameter of every function that dereferences the pointers;
  \<open>dbValueAt\<close> gives the level \<^verbatim>\<open>int(*node.txPower)\<close> read at an address (the
  declaration of \<^verbatim>\<open>DbValue\<close> is outside the sources, so the converted level is what the
  heap holds). A pointer is \<open>Some\<close> address or \<open>None\<close>, the nil pointer: \<^verbatim>\<open>newNode\<close>
  stores what it is given without a check, and dereferencing nil panics. A pointer that
  is not nil points to a cell, so the heap is total on addresses. The \<^verbatim>\<open>*string\<close> that
  names the model in \<^verbatim>\<open>AddNode\<close> is \<open>Some\<close> string or \<open>None\<close> in the same way.
\<close>

record Heap =
  dbValueAt :: "nat \<Rightarrow> int"
  nodeModeAt :: "nat \<Rightarrow> NodeMode"

text \<open>
  The entries of a history batch are built by the literal
  \<^verbatim>\<open>&NodeEnergy{NodeId, Disabled, Sleep, Tx, Rx}\<close>: only these five fields carry
  information there. They form the parent record, and a batch holds values of it.
\<close>

record NodeEnergyTotals =
  NodeId :: int
  Disabled :: real
  Sleep :: real
  Tx :: real
  Rx :: real

record NodeEnergy = NodeEnergyTotals +
  Model :: "string option"
  radio :: RadioStatus
  txPower :: "nat option"
  nodeMode :: "nat option"

text \<open>
  Modelled from the spec: the struct \<^verbatim>\<open>NetworkConsumption\<close> of package radiomodel, a
  timestamp and the four energy totals that \<^verbatim>\<open>StoreNetworkEnergy\<close> fills. Its field
  \<^verbatim>\<open>Timestamp\<close> is \<open>Timestamp_nc\<close>, the name being taken by the radio status.
\<close>

record NetworkConsumption =
  Timestamp_nc :: u64
  EnergyConsDisabled :: real
  EnergyConsSleep :: real
  EnergyConsTx :: real
  EnergyConsRx :: real

record EnergyAnalyser =
  nodes :: "(int \<times> NodeEnergy) list"
  networkHistory :: "NetworkConsumption list"
  energyHistoryByNodes :: "NodeEnergyTotals list list"
  title :: string

section \<open>The device model registry (devicemodel\_types.go)\<close>

definition dm_stm32wb55rg :: DeviceModel where
  "dm_stm32wb55rg =
    \<lparr>Name = ''STM32WB55RG'', Description = ''U=3.3V-all data from datasheet'',
     RxConsumption = 0.00001485, SleepConsumption = 0.00001485, DisabledConsumption = 0.00000011,
     TxPowerConsumption =
     [(0, 0.00001716)]\<rparr>"

definition dm_esp32h2 :: DeviceModel where
  "dm_esp32h2 =
    \<lparr>Name = ''ESP32-H2'', Description = ''measured at U=3.3V'',
     RxConsumption = 0.0000858186, SleepConsumption = 0.0000000825, DisabledConsumption = 0.0000521284,
     TxPowerConsumption =
     [(- 24, 0.0000779209), (- 23, 0.0000779126), (- 22, 0.0000779142),
      (- 21, 0.0000779166), (- 20, 0.0000779045), (- 19, 0.0000778923),
      (- 18, 0.0000793767), (- 17, 0.0000793699), (- 16, 0.0000793677),
      (- 15, 0.0000819075), (- 14, 0.0000818989), (- 13, 0.0000818897),
      (- 12, 0.0000847587), (- 11, 0.0000847510), (- 10, 0.0000847618),
      (- 9, 0.0000887625), (- 8, 0.0000887683), (- 7, 0.0000887678),
      (- 6, 0.0000937528), (- 5, 0.0000937440), (- 4, 0.0000937266),
      (- 3, 0.0001007521), (- 2, 0.0001007577), (- 1, 0.0001007453),
      (0, 0.0001089868), (1, 0.0001089650), (2, 0.0001089636),
      (3, 0.0001167043), (4, 0.0001167026), (5, 0.0001166783),
      (6, 0.0001322550), (7, 0.0001322529), (8, 0.0001322555),
      (9, 0.0001520741), (10, 0.0001520425), (11, 0.0001519924),
      (12, 0.0001778838), (13, 0.0001778709), (14, 0.0001779033),
      (15, 0.0002113616), (16, 0.0002112867), (17, 0.0002113827),
      (18, 0.0002472579), (19, 0.0002472804), (20, 0.0002802476)]\<rparr>"

definition dm_nrf52840 :: DeviceModel where
  "dm_nrf52840 =
    \<lparr>Name = ''nRF52840'', Description = ''measured at U=3.0V'',
     RxConsumption = 0.0000202952, SleepConsumption = 0.0000000083, DisabledConsumption = 0.0000016787,
     TxPowerConsumption =
     [(- 20, 0.0000141036), (- 19, 0.0000141137), (- 18, 0.0000141135),
      (- 17, 0.0000141163), (- 16, 0.0000145658), (- 15, 0.0000145686),
      (- 14, 0.0000145676), (- 13, 0.0000145658), (- 12, 0.0000152260),
      (- 11, 0.0000152161), (- 10, 0.0000151981), (- 9, 0.0000152107),
      (- 8, 0.0000161509), (- 7, 0.0000161467), (- 6, 0.0000161559),
      (- 5, 0.0000161528), (- 4, 0.0000173669), (- 3, 0.0000173836),
      (- 2, 0.0000173844), (- 1, 0.0000173743), (0, 0.0000202886),
      (1, 0.0000203143), (2, 0.0000292763), (3, 0.0000317403),
      (4, 0.0000337384), (5, 0.0000355342), (6, 0.0000391955),
      (7, 0.0000413568), (8, 0.0000455021)]\<rparr>"

definition dm_nrf5340 :: DeviceModel where
  "dm_nrf5340 =
    \<lparr>Name = ''nRF5340'', Description = ''measured at U=3.0V'',
     RxConsumption = 0.0000156184, SleepConsumption = 0.00000001236, DisabledConsumption = 0.0000022175,
     TxPowerConsumption =
     [(- 40, 0.0000099324), (- 39, 0.0000099483), (- 38, 0.0000099415),
      (- 37, 0.0000099394), (- 36, 0.0000099447), (- 35, 0.0000099406),
      (- 34, 0.0000099394), (- 33, 0.0000099493), (- 32, 0.0000099416),
      (- 31, 0.0000099446), (- 30, 0.0000099203), (- 29, 0.0000099385),
      (- 28, 0.0000099303), (- 27, 0.0000099504), (- 26, 0.0000099398),
      (- 25, 0.0000099285), (- 24, 0.0000099402), (- 23, 0.0000099423),
      (- 22, 0.0000099380), (- 21, 0.0000099421), (- 20, 0.0000103551),
      (- 19, 0.0000103243), (- 18, 0.0000103230), (- 17, 0.0000103303),
      (- 16, 0.0000105452), (- 15, 0.0000105364), (- 14, 0.0000105203),
      (- 13, 0.0000105354), (- 12, 0.0000110474), (- 11, 0.0000110528),
      (- 10, 0.0000110558), (- 9, 0.0000110588), (- 8, 0.0000118000),
      (- 7, 0.0000120808), (- 6, 0.0000125002), (- 5, 0.0000126586),
      (- 4, 0.0000130901), (- 3, 0.0000135615), (- 2, 0.0000141279),
      (- 1, 0.0000142429), (0, 0.0000150293), (1, 0.0000178229),
      (2, 0.0000180059), (3, 0.0000190281)]\<rparr>"

definition DeviceModels :: Registry where
  "DeviceModels =
    [(''stm32wb55rg'', dm_stm32wb55rg),
     (''esp32h2'', dm_esp32h2),
     (''nrf52840'', dm_nrf52840),
     (''nrf5340'', dm_nrf5340)]"

text \<open>\<^verbatim>\<open>m[k]\<close> on a Go map: the zero value when the key is missing.\<close>

definition mapIndex :: "('k \<times> 'v::zero) list \<Rightarrow> 'k \<Rightarrow> 'v" where
  "mapIndex m k = (case map_of m k of None \<Rightarrow> 0 | Some v \<Rightarrow> v)"

definition SetTxPowerConsumption :: "DeviceModel \<Rightarrow> int \<Rightarrow> real \<Rightarrow> DeviceModel" where
  "SetTxPowerConsumption dm txp consumption =
     dm\<lparr>TxPowerConsumption := AList.update txp consumption (TxPowerConsumption dm)\<rparr>"

section \<open>Radio state tracker (node.go)\<close>

text \<open>
  \<^verbatim>\<open>ComputeRadioState\<close> as the analyser calls it (the variant that takes the node
  mode into account). The branch for Sleep reads through \<^verbatim>\<open>node.nodeMode\<close> and the branch
  for Transmit through \<^verbatim>\<open>node.txPower\<close>; either panics on the nil pointer. The other
  branches touch neither pointer.
\<close>

definition ComputeRadioState :: "Heap \<Rightarrow> NodeEnergy \<Rightarrow> u64 \<Rightarrow> error + NodeEnergy" where
  "ComputeRadioState h node timestamp =
     (let r = radio node;
          delta = timestamp - Timestamp r;
          stamp = (\<lambda>r'. Inr (node\<lparr>radio := r'\<lparr>Timestamp := timestamp\<rparr>\<rparr>))
      in case State r of
           RadioDisabled \<Rightarrow> stamp (r\<lparr>SpentDisabled := SpentDisabled r + delta\<rparr>)
         | RadioSleep \<Rightarrow>
             (case nodeMode node of
                None \<Rightarrow> Inl NilPointerDereference
              | Some a \<Rightarrow>
                  if RxOnWhenIdle (nodeModeAt h a)
                  then stamp (r\<lparr>SpentDisabled := SpentDisabled r + delta\<rparr>)
                  else stamp (r\<lparr>SpentSleep := SpentSleep r + delta\<rparr>))
         | RadioTx \<Rightarrow>
             (case txPower node of
                None \<Rightarrow> Inl NilPointerDereference
              | Some a \<Rightarrow>
                  (let lvl = dbValueAt h a
                   in stamp (r\<lparr>SpentTx := AList.update lvl (mapIndex (SpentTx r) lvl + delta)
                                                (SpentTx r)\<rparr>)))
         | RadioRx \<Rightarrow> stamp (r\<lparr>SpentRx := SpentRx r + delta\<rparr>)
         | RadioInvalid \<Rightarrow> stamp r
         | RadioOther v \<Rightarrow> Inl PanicUnknownRadioState)"

text \<open>The earlier variant of the same function, without the node mode.\<close>

definition ComputeRadioState_v0 :: "Heap \<Rightarrow> NodeEnergy \<Rightarrow> u64 \<Rightarrow> error + NodeEnergy" where
  "ComputeRadioState_v0 h node timestamp =
     (let r = radio node;
          delta = timestamp - Timestamp r;
          stamp = (\<lambda>r'. Inr (node\<lparr>radio := r'\<lparr>Timestamp := timestamp\<rparr>\<rparr>))
      in case State r of
           RadioDisabled \<Rightarrow> stamp (r\<lparr>SpentDisabled := SpentDisabled r + delta\<rparr>)
         | RadioSleep \<Rightarrow> stamp (r\<lparr>SpentSleep := SpentSleep r + delta\<rparr>)
         | RadioTx \<Rightarrow>
             (case txPower node of
                None \<Rightarrow> Inl NilPointerDereference
              | Some a \<Rightarrow>
                  (let lvl = dbValueAt h a
                   in stamp (r\<lparr>SpentTx := AList.update lvl (mapIndex (SpentTx r) lvl + delta)
                                                (SpentTx r)\<rparr>)))
         | RadioRx \<Rightarrow> stamp (r\<lparr>SpentRx := SpentRx r + delta\<rparr>)
         | RadioInvalid \<Rightarrow> stamp r
         | RadioOther v \<Rightarrow> Inl PanicUnknownRadioState)"

definition SetRadioState :: "Heap \<Rightarrow> NodeEnergy \<Rightarrow> RadioStates \<Rightarrow> u64 \<Rightarrow> error + NodeEnergy" where
  "SetRadioState h node state timestamp =
     (case ComputeRadioState h node timestamp of
        Inl e \<Rightarrow> Inl e
      | Inr node' \<Rightarrow> Inr (node'\<lparr>radio := (radio node')\<lparr>State := state\<rparr>\<rparr>))"

text \<open>
  \<^verbatim>\<open>newNode\<close>: \<^verbatim>\<open>*model\<close> panics on the nil pointer, and \<^verbatim>\<open>DeviceModels[*model]\<close> is
  the nil pointer for a name that is not in the registry. The pointers to the transmit
  power and the node mode are stored as given. The four energy fields are not set and
  are zero.
\<close>

definition newNode ::
  "Registry \<Rightarrow> int \<Rightarrow> u64 \<Rightarrow> string option \<Rightarrow> nat option \<Rightarrow> nat option \<Rightarrow> error + NodeEnergy" where
  "newNode reg nodeID timestamp model txp mode =
     (case model of
        None \<Rightarrow> Inl NilPointerDereference
      | Some name \<Rightarrow>
          Inr \<lparr>NodeId = nodeID, Disabled = 0, Sleep = 0, Tx = 0, Rx = 0,
               Model = (case map_of reg name of None \<Rightarrow> None | Some dm \<Rightarrow> Some name),
               radio = \<lparr>State = RadioDisabled, SpentDisabled = 0, SpentSleep = 0, SpentRx = 0,
                        SpentTx = [], Timestamp = timestamp\<rparr>,
               txPower = txp, nodeMode = mode\<rparr>)"

text \<open>
  \<^verbatim>\<open>(*NodeEnergy).SetDeviceModel\<close>. The receiver may be the nil pointer (\<open>None\<close>): the
  lookup does not touch it, the assignment \<^verbatim>\<open>node.Model = dm\<close> dereferences it.
\<close>

definition SetDeviceModel_node :: "Registry \<Rightarrow> NodeEnergy option \<Rightarrow> string \<Rightarrow> error + (bool \<times> NodeEnergy option)" where
  "SetDeviceModel_node reg node model =
     (case map_of reg model of
        None \<Rightarrow> Inr (False, node)
      | Some dm \<Rightarrow>
          (case node of
             None \<Rightarrow> Inl NilPointerDereference
           | Some n \<Rightarrow> Inr (True, Some (n\<lparr>Model := Some model\<rparr>))))"

section \<open>Energy calculator (node.go)\<close>

definition FindAndAddTxPowerConsumption :: "DeviceModel \<Rightarrow> int \<Rightarrow> real \<times> DeviceModel" where
  "FindAndAddTxPowerConsumption dm txp =
     (let undefinedValue = 0.000100000;
          txList = map fst (TxPowerConsumption dm)
      in if length txList = 0
         then (undefinedValue, SetTxPowerConsumption dm txp undefinedValue)
         else
           (let txList = sort txList
            in if txp > last txList
               then (let maxVal = mapIndex (TxPowerConsumption dm) (last txList)
                     in (maxVal, SetTxPowerConsumption dm txp maxVal))
               else
                 (case List.find (\<lambda>k. k > txp) txList of
                    Some k \<Rightarrow>
                      (let firstHigherVal = mapIndex (TxPowerConsumption dm) k
                       in (firstHigherVal, SetTxPowerConsumption dm txp firstHigherVal))
                  | None \<Rightarrow> (undefinedValue, dm))))"

text \<open>
  The body of the loop of \<^verbatim>\<open>CalculateTxEnergy\<close> that resolves the draw of one level:
  the calibrated draw when the level is a key of the model, the result of
  \<^verbatim>\<open>FindAndAddTxPowerConsumption\<close> otherwise.
\<close>

definition consumption :: "DeviceModel \<Rightarrow> int \<Rightarrow> real \<times> DeviceModel" where
  "consumption dm txp =
     (case map_of (TxPowerConsumption dm) txp of
        Some c \<Rightarrow> (c, dm)
      | None \<Rightarrow> FindAndAddTxPowerConsumption dm txp)"

fun txEnergyLoop :: "(int \<times> u64) list \<Rightarrow> real \<Rightarrow> DeviceModel \<Rightarrow> real \<times> DeviceModel" where
  "txEnergyLoop [] txEnergy dm = (txEnergy, dm)"
| "txEnergyLoop ((txp, timeSpent) # rest) txEnergy dm =
     (case consumption dm txp of
        (c, dm') \<Rightarrow> txEnergyLoop rest (txEnergy + c * real (unat timeSpent)) dm')"

definition derefModel :: "Registry \<Rightarrow> NodeEnergy \<Rightarrow> error + DeviceModel" where
  "derefModel reg node =
     (case Model node of
        None \<Rightarrow> Inl NilPointerDereference
      | Some k \<Rightarrow> (case map_of reg k of None \<Rightarrow> Inl NilPointerDereference | Some dm \<Rightarrow> Inr dm))"

text \<open>
  \<^verbatim>\<open>CalculateTxEnergy\<close> touches the model only inside the loop, so a node without
  transmit time does not dereference it. The model it has written to is stored back.
\<close>

definition CalculateTxEnergy :: "Registry \<Rightarrow> NodeEnergy \<Rightarrow> error + (real \<times> Registry)" where
  "CalculateTxEnergy reg node =
     (if SpentTx (radio node) = [] then Inr (0, reg)
      else case derefModel reg node of
             Inl e \<Rightarrow> Inl e
           | Inr dm \<Rightarrow>
               (case txEnergyLoop (SpentTx (radio node)) 0 dm of
                  (txEnergy, dm') \<Rightarrow> Inr (txEnergy, AList.update (the (Model node)) dm' reg)))"

definition CalculateRxEnergy :: "Registry \<Rightarrow> NodeEnergy \<Rightarrow> error + real" where
  "CalculateRxEnergy reg node =
     (case derefModel reg node of
        Inl e \<Rightarrow> Inl e
      | Inr dm \<Rightarrow> Inr (RxConsumption dm * real (unat (SpentRx (radio node)))))"

definition CalculateDisabledEnergy :: "Registry \<Rightarrow> NodeEnergy \<Rightarrow> error + real" where
  "CalculateDisabledEnergy reg node =
     (case derefModel reg node of
        Inl e \<Rightarrow> Inl e
      | Inr dm \<Rightarrow> Inr (DisabledConsumption dm * real (unat (SpentDisabled (radio node)))))"

definition CalculateSleepEnergy :: "Registry \<Rightarrow> NodeEnergy \<Rightarrow> error + real" where
  "CalculateSleepEnergy reg node =
     (case derefModel reg node of
        Inl e \<Rightarrow> Inl e
      | Inr dm \<Rightarrow> Inr (SleepConsumption dm * real (unat (SpentSleep (radio node)))))"

section \<open>Network aggregator (core.go)\<close>

definition NewEnergyAnalyser :: EnergyAnalyser where
  "NewEnergyAnalyser =
     \<lparr>nodes = [], networkHistory = [], energyHistoryByNodes = [], title = []\<rparr>"

definition AddNode ::
  "Registry \<Rightarrow> EnergyAnalyser \<Rightarrow> int \<Rightarrow> u64 \<Rightarrow> string option \<Rightarrow> nat option \<Rightarrow> nat option \<Rightarrow>
   error + EnergyAnalyser" where
  "AddNode reg e nodeID timestamp model txp mode =
     (if map_of (nodes e) nodeID \<noteq> None then Inr e
      else case newNode reg nodeID timestamp model txp mode of
             Inl err \<Rightarrow> Inl err
           | Inr node \<Rightarrow> Inr (e\<lparr>nodes := AList.update nodeID node (nodes e)\<rparr>))"

definition ClearEnergyData :: "EnergyAnalyser \<Rightarrow> EnergyAnalyser" where
  "ClearEnergyData e = e\<lparr>networkHistory := [], energyHistoryByNodes := []\<rparr>"

definition DeleteNode :: "EnergyAnalyser \<Rightarrow> int \<Rightarrow> EnergyAnalyser" where
  "DeleteNode e nodeID =
     (let e' = e\<lparr>nodes := AList.delete nodeID (nodes e)\<rparr>
      in if length (nodes e') = 0 then ClearEnergyData e' else e')"

definition GetNode :: "EnergyAnalyser \<Rightarrow> int \<Rightarrow> NodeEnergy option" where
  "GetNode e nodeID = map_of (nodes e) nodeID"

definition GetNetworkEnergyHistory :: "EnergyAnalyser \<Rightarrow> NetworkConsumption list" where
  "GetNetworkEnergyHistory e = networkHistory e"

definition GetEnergyHistoryByNodes :: "EnergyAnalyser \<Rightarrow> NodeEnergyTotals list list" where
  "GetEnergyHistoryByNodes e = energyHistoryByNodes e"

text \<open>
  \<^verbatim>\<open>s[len(s)-1]\<close>: the index is computed in \<^verbatim>\<open>int\<close>, and the runtime panics when it
  is not within the slice.
\<close>

definition sliceLast :: "'a list \<Rightarrow> error + 'a" where
  "sliceLast s =
     (let i = int (length s) - 1
      in if 0 \<le> i \<and> i < int (length s) then Inr (s ! nat i) else Inl IndexOutOfRange)"

definition GetLatestEnergyOfNodes :: "EnergyAnalyser \<Rightarrow> error + NodeEnergyTotals list" where
  "GetLatestEnergyOfNodes e = sliceLast (energyHistoryByNodes e)"

definition GetNetworkLatestSnap :: "EnergyAnalyser \<Rightarrow> error + NetworkConsumption" where
  "GetNetworkLatestSnap e = sliceLast (networkHistory e)"

text \<open>One pass of the loop of \<^verbatim>\<open>StoreNetworkEnergy\<close> over a node.\<close>

definition snapshotNode ::
  "Heap \<Rightarrow> Registry \<Rightarrow> NodeEnergy \<Rightarrow> u64 \<Rightarrow> error + (NodeEnergy \<times> Registry \<times> NodeEnergyTotals)" where
  "snapshotNode h reg node timestamp =
     (case ComputeRadioState h node timestamp of
        Inl e \<Rightarrow> Inl e
      | Inr node' \<Rightarrow>
     (case CalculateDisabledEnergy reg node' of
        Inl e \<Rightarrow> Inl e
      | Inr d \<Rightarrow>
     (case CalculateSleepEnergy reg node' of
        Inl e \<Rightarrow> Inl e
      | Inr s \<Rightarrow>
     (case CalculateTxEnergy reg node' of
        Inl e \<Rightarrow> Inl e
      | Inr (t, reg') \<Rightarrow>
     (case CalculateRxEnergy reg' node' of
        Inl e \<Rightarrow> Inl e
      | Inr r \<Rightarrow>
          Inr (node', reg', \<lparr>NodeId = NodeId node', Disabled = d, Sleep = s, Tx = t, Rx = r\<rparr>))))))"

fun storeLoop ::
  "Heap \<Rightarrow> u64 \<Rightarrow> real \<Rightarrow> (int \<times> NodeEnergy) list \<Rightarrow> Registry \<Rightarrow> NetworkConsumption \<Rightarrow>
   NodeEnergyTotals list \<Rightarrow>
   error + ((int \<times> NodeEnergy) list \<times> Registry \<times> NetworkConsumption \<times> NodeEnergyTotals list)" where
  "storeLoop h timestamp netSize [] reg networkSnapshot nodesEnergySnapshot =
     Inr ([], reg, networkSnapshot, nodesEnergySnapshot)"
| "storeLoop h timestamp netSize ((i, node) # rest) reg networkSnapshot nodesEnergySnapshot =
     (case snapshotNode h reg node timestamp of
        Inl err \<Rightarrow> Inl err
      | Inr (node', reg', en) \<Rightarrow>
          (case storeLoop h timestamp netSize rest reg'
                  (networkSnapshot\<lparr>
                     EnergyConsDisabled := EnergyConsDisabled networkSnapshot + Disabled en / netSize,
                     EnergyConsSleep := EnergyConsSleep networkSnapshot + Sleep en / netSize,
                     EnergyConsTx := EnergyConsTx networkSnapshot + Tx en / netSize,
                     EnergyConsRx := EnergyConsRx networkSnapshot + Rx en / netSize\<rparr>)
                  (nodesEnergySnapshot @ [en]) of
             Inl err \<Rightarrow> Inl err
           | Inr (rest', reg'', snap', batch') \<Rightarrow> Inr ((i, node') # rest', reg'', snap', batch')))"

definition StoreNetworkEnergy ::
  "Heap \<Rightarrow> Registry \<Rightarrow> EnergyAnalyser \<Rightarrow> u64 \<Rightarrow> error + (Registry \<times> EnergyAnalyser)" where
  "StoreNetworkEnergy h reg e timestamp =
     (case storeLoop h timestamp (real (length (nodes e))) (nodes e) reg
             \<lparr>Timestamp_nc = timestamp, EnergyConsDisabled = 0, EnergyConsSleep = 0,
              EnergyConsTx = 0, EnergyConsRx = 0\<rparr> [] of
        Inl err \<Rightarrow> Inl err
      | Inr (nodes', reg', networkSnapshot, nodesEnergySnapshot) \<Rightarrow>
          Inr (reg', e\<lparr>nodes := nodes',
                       networkHistory := networkHistory e @ [networkSnapshot],
                       energyHistoryByNodes := energyHistoryByNodes e @ [nodesEnergySnapshot]\<rparr>))"

definition SetTitle :: "EnergyAnalyser \<Rightarrow> string \<Rightarrow> EnergyAnalyser" where
  "SetTitle e t = e\<lparr>title := t\<rparr>"

text \<open>
  \<^verbatim>\<open>(*EnergyAnalyser).SetDeviceModel\<close>. Past the guard the map has no entry for the id,
  so \<^verbatim>\<open>e.nodes[nodeID]\<close> is the nil pointer that the node method receives.
\<close>

definition SetDeviceModel :: "Registry \<Rightarrow> EnergyAnalyser \<Rightarrow> int \<Rightarrow> string \<Rightarrow> error + (bool \<times> EnergyAnalyser)" where
  "SetDeviceModel reg e nodeID model =
     (if map_of (nodes e) nodeID \<noteq> None then Inr (False, e)
      else case SetDeviceModel_node reg (map_of (nodes e) nodeID) model of
             Inl err \<Rightarrow> Inl err
           | Inr (ok, node') \<Rightarrow>
               Inr (if ok then True else False,
                    case node' of None \<Rightarrow> e | Some n \<Rightarrow> e\<lparr>nodes := AList.update nodeID n (nodes e)\<rparr>))"

definition DeviceModelExists :: "Registry \<Rightarrow> string \<Rightarrow> bool" where
  "DeviceModelExists reg model = (map_of reg model \<noteq> None)"

section \<open>Runs and example states\<close>

text \<open>A sequence of \<^verbatim>\<open>SetRadioState\<close> calls on a node, each with the heap it sees.\<close>

fun SetRadioStates :: "NodeEnergy \<Rightarrow> (Heap \<times> RadioStates \<times> u64) list \<Rightarrow> error + NodeEnergy" where
  "SetRadioStates node [] = Inr node"
| "SetRadioStates node ((h, state, timestamp) # calls) =
     (case SetRadioState h node state timestamp of
        Inl e \<Rightarrow> Inl e
      | Inr node' \<Rightarrow> SetRadioStates node' calls)"

fun callState :: "Heap \<times> RadioStates \<times> u64 \<Rightarrow> RadioStates" where
  "callState (h, state, timestamp) = state"

fun callTime :: "Heap \<times> RadioStates \<times> u64 \<Rightarrow> u64" where
  "callTime (h, state, timestamp) = timestamp"

text \<open>
  The sum of the accumulators of a node, as a natural number (no wrap-around). The
  transmit times are summed over the entries of the map; its keys are distinct in
  every node that \<open>conserved\<close> below describes.
\<close>

definition spentTotal :: "NodeEnergy \<Rightarrow> nat" where
  "spentTotal node =
     unat (SpentDisabled (radio node)) + unat (SpentSleep (radio node)) +
     unat (SpentRx (radio node)) + sum_list (map (\<lambda>kv. unat (snd kv)) (SpentTx (radio node)))"

text \<open>The states whose time \<^verbatim>\<open>ComputeRadioState\<close> adds to an accumulator.\<close>

fun accounted :: "RadioStates \<Rightarrow> bool" where
  "accounted RadioDisabled = True"
| "accounted RadioSleep = True"
| "accounted RadioTx = True"
| "accounted RadioRx = True"
| "accounted RadioInvalid = False"
| "accounted (RadioOther v) = False"

definition heapIdle :: Heap where
  "heapIdle = \<lparr>dbValueAt = (\<lambda>a. 0), nodeModeAt = (\<lambda>a. \<lparr>RxOnWhenIdle = True\<rparr>)\<rparr>"

definition heapSleepy :: Heap where
  "heapSleepy = \<lparr>dbValueAt = (\<lambda>a. 0), nodeModeAt = (\<lambda>a. \<lparr>RxOnWhenIdle = False\<rparr>)\<rparr>"

text \<open>
  \<open>node1\<close> is the node that \<^verbatim>\<open>newNode\<close> builds for id 1 at time 0 with the model
  stm32wb55rg and pointers to cell 0; \<open>node2\<close> is node 2, created at time 7 as an
  nRF52840; \<open>node1In s t\<close> is node 1 in state \<open>s\<close>, last stamped at \<open>t\<close>.
\<close>

definition node1 :: NodeEnergy where
  "node1 =
     \<lparr>NodeId = 1, Disabled = 0, Sleep = 0, Tx = 0, Rx = 0,
      Model = Some ''stm32wb55rg'',
      radio = \<lparr>State = RadioDisabled, SpentDisabled = 0, SpentSleep = 0, SpentRx = 0,
               SpentTx = [], Timestamp = 0\<rparr>,
      txPower = Some 0, nodeMode = Some 0\<rparr>"

definition node2 :: NodeEnergy where
  "node2 =
     \<lparr>NodeId = 2, Disabled = 0, Sleep = 0, Tx = 0, Rx = 0,
      Model = Some ''nrf52840'',
      radio = \<lparr>State = RadioDisabled, SpentDisabled = 0, SpentSleep = 0, SpentRx = 0,
               SpentTx = [], Timestamp = 7\<rparr>,
      txPower = Some 2, nodeMode = Some 3\<rparr>"

definition node1In :: "RadioStates \<Rightarrow> u64 \<Rightarrow> NodeEnergy" where
  "node1In s t = node1\<lparr>radio := (radio node1)\<lparr>State := s, Timestamp := t\<rparr>\<rparr>"

text \<open>Node 1 transmitting, with 4 microseconds spent at level 0, last stamped at 10.\<close>

definition node1Tx :: NodeEnergy where
  "node1Tx = node1\<lparr>radio := (radio node1)\<lparr>State := RadioTx, SpentTx := [(0, 4)], Timestamp := 10\<rparr>\<rparr>"

text \<open>The invariant of the accumulators of a node that was created at \<open>t0\<close>.\<close>

definition conserved :: "u64 \<Rightarrow> NodeEnergy \<Rightarrow> bool" where
  "conserved t0 node \<longleftrightarrow>
     t0 \<le> Timestamp (radio node) \<and>
     distinct (map fst (SpentTx (radio node))) \<and>
     spentTotal node = unat (Timestamp (radio node)) - unat t0"

text \<open>
  What one call of \<^verbatim>\<open>StoreNetworkEnergy\<close> captures: the timestamp it is given, and the
  values its local variables \<^verbatim>\<open>networkSnapshot\<close> and \<^verbatim>\<open>nodesEnergySnapshot\<close> hold when
  the loop over the nodes has ended. \<open>capturedBy\<close> runs the loop as the call does and
  reads them off; it is \<open>None\<close> when the loop panics.
\<close>

record Capture =
  capturedAt :: u64
  capturedSnapshot :: NetworkConsumption
  capturedBatch :: "NodeEnergyTotals list"

definition capturedBy :: "Heap \<Rightarrow> Registry \<Rightarrow> EnergyAnalyser \<Rightarrow> u64 \<Rightarrow> Capture option" where
  "capturedBy h reg e timestamp =
     (case storeLoop h timestamp (real (length (nodes e))) (nodes e) reg
             \<lparr>Timestamp_nc = timestamp, EnergyConsDisabled = 0, EnergyConsSleep = 0,
              EnergyConsTx = 0, EnergyConsRx = 0\<rparr> [] of
        Inl err \<Rightarrow> None
      | Inr (nodes', reg', networkSnapshot, nodesEnergySnapshot) \<Rightarrow>
          Some \<lparr>capturedAt = timestamp, capturedSnapshot = networkSnapshot,
                capturedBatch = nodesEnergySnapshot\<rparr>)"

text \<open>
  The states of the registry and the analyser that the exported operations reach from
  a fresh analyser. The third component is a ghost, the log of the captures whose
  batches are still held: a call of \<^verbatim>\<open>StoreNetworkEnergy\<close> adds what it captured at the
  end of the log, whatever it does to the histories; any other operation keeps as many
  entries of the log, from the oldest on, as it leaves batches in the per-node history.
  The log is never read by the operations. A radio state change reaches a node through
  the pointer \<^verbatim>\<open>GetNode\<close> returns. A call that panics ends the run.
\<close>

definition capturesKept :: "EnergyAnalyser \<Rightarrow> Capture list \<Rightarrow> Capture list" where
  "capturesKept e' caps = take (length (energyHistoryByNodes e')) caps"

inductive reachable :: "Registry \<Rightarrow> EnergyAnalyser \<Rightarrow> Capture list \<Rightarrow> bool" where
  fresh: "reachable DeviceModels NewEnergyAnalyser []"
| register: "reachable reg e caps \<Longrightarrow>
     AddNode reg e nodeID timestamp model txp mode = Inr e' \<Longrightarrow>
     reachable reg e' (capturesKept e' caps)"
| deregister: "reachable reg e caps \<Longrightarrow> e' = DeleteNode e nodeID \<Longrightarrow>
     reachable reg e' (capturesKept e' caps)"
| capture: "reachable reg e caps \<Longrightarrow> StoreNetworkEnergy h reg e timestamp = Inr (reg', e') \<Longrightarrow>
     capturedBy h reg e timestamp = Some c \<Longrightarrow>
     reachable reg' e' (caps @ [c])"
| clear: "reachable reg e caps \<Longrightarrow> e' = ClearEnergyData e \<Longrightarrow>
     reachable reg e' (capturesKept e' caps)"
| radioState: "reachable reg e caps \<Longrightarrow> GetNode e nodeID = Some node \<Longrightarrow>
     SetRadioState h node state timestamp = Inr node' \<Longrightarrow>
     e' = e\<lparr>nodes := AList.update nodeID node' (nodes e)\<rparr> \<Longrightarrow>
     reachable reg e' (capturesKept e' caps)"
| reassign: "reachable reg e caps \<Longrightarrow> SetDeviceModel reg e nodeID model = Inr (ok, e') \<Longrightarrow>
     reachable reg e' (capturesKept e' caps)"
| retitle: "reachable reg e caps \<Longrightarrow> e' = SetTitle e t \<Longrightarrow>
     reachable reg e' (capturesKept e' caps)"

code_pred reachable .

text \<open>
  The histories are paired with the log: the snapshot and the batch at an index are
  the ones the capture at that index of the log built, and the snapshot carries the
  timestamp of that capture.
\<close>

definition paired :: "EnergyAnalyser \<Rightarrow> Capture list \<Rightarrow> bool" where
  "paired e caps \<longleftrightarrow>
     networkHistory e = map capturedSnapshot caps \<and>
     energyHistoryByNodes e = map capturedBatch caps \<and>
     list_all (\<lambda>c. Timestamp_nc (capturedSnapshot c) = capturedAt c) caps"

text \<open>
  Example states. \<open>capturedOnce\<close> is the analyser after node 1 was registered at time 0
  and one snapshot was captured at time 5, \<open>capturedTwice\<close> the same after a second
  capture at time 9, and \<open>twoNodes\<close> is \<open>capturedOnce\<close> with node 2 registered as well.
  \<open>capture5\<close> and \<open>capture9\<close> are what the two captures built. \<open>steppedProfile\<close> is a
  profile calibrated at the levels -20, -10, 0, 10 and 20 dBm, \<open>blankProfile\<close> one
  without calibrated levels.
\<close>

definition capture5 :: Capture where
  "capture5 =
     \<lparr>capturedAt = 5,
      capturedSnapshot =
        \<lparr>Timestamp_nc = 5, EnergyConsDisabled = 0.00000055, EnergyConsSleep = 0,
         EnergyConsTx = 0, EnergyConsRx = 0\<rparr>,
      capturedBatch = [\<lparr>NodeId = 1, Disabled = 0.00000055, Sleep = 0, Tx = 0, Rx = 0\<rparr>]\<rparr>"

definition capture9 :: Capture where
  "capture9 =
     \<lparr>capturedAt = 9,
      capturedSnapshot =
        \<lparr>Timestamp_nc = 9, EnergyConsDisabled = 0.00000099, EnergyConsSleep = 0,
         EnergyConsTx = 0, EnergyConsRx = 0\<rparr>,
      capturedBatch = [\<lparr>NodeId = 1, Disabled = 0.00000099, Sleep = 0, Tx = 0, Rx = 0\<rparr>]\<rparr>"

definition capturedOnce :: EnergyAnalyser where
  "capturedOnce =
     \<lparr>nodes = [(1, node1\<lparr>radio := (radio node1)\<lparr>SpentDisabled := 5, Timestamp := 5\<rparr>\<rparr>)],
      networkHistory =
        [\<lparr>Timestamp_nc = 5, EnergyConsDisabled = 0.00000055, EnergyConsSleep = 0,
          EnergyConsTx = 0, EnergyConsRx = 0\<rparr>],
      energyHistoryByNodes = [[\<lparr>NodeId = 1, Disabled = 0.00000055, Sleep = 0, Tx = 0, Rx = 0\<rparr>]],
      title = []\<rparr>"

definition capturedTwice :: EnergyAnalyser where
  "capturedTwice =
     \<lparr>nodes = [(1, node1\<lparr>radio := (radio node1)\<lparr>SpentDisabled := 9, Timestamp := 9\<rparr>\<rparr>)],
      networkHistory = [capturedSnapshot capture5, capturedSnapshot capture9],
      energyHistoryByNodes = [capturedBatch capture5, capturedBatch capture9],
      title = []\<rparr>"

definition twoNodes :: EnergyAnalyser where
  "twoNodes = capturedOnce\<lparr>nodes := nodes capturedOnce @ [(2, node2)]\<rparr>"



section \<open>Auxiliary facts\<close>

lemma node1_radio:
  "radio node1 = \<lparr>State = RadioDisabled, SpentDisabled = 0, SpentSleep = 0, SpentRx = 0,
                  SpentTx = [], Timestamp = 0\<rparr>"
  by (simp add: node1_def)

lemma node1_Model: "Model node1 = Some ''stm32wb55rg''"
  by (simp add: node1_def)

lemma node1_pointers: "txPower node1 = Some 0" "nodeMode node1 = Some 0"
  by (simp_all add: node1_def)

lemma newNode_node1:
  "newNode DeviceModels 1 0 (Some ''stm32wb55rg'') (Some 0) (Some 0) = Inr node1"
  by (simp add: newNode_def node1_def DeviceModels_def)

lemma newNode_node2:
  "newNode DeviceModels 2 7 (Some ''nrf52840'') (Some 2) (Some 3) = Inr node2"
  by (simp add: newNode_def node2_def DeviceModels_def)

lemma sliceLast_eq: "sliceLast s = (if s = [] then Inl IndexOutOfRange else Inr (last s))"
  by (cases s rule: rev_cases) (simp_all add: sliceLast_def)

lemma unat_wrapped_delta:
  fixes t l :: u64
  assumes "t < l"
  shows "unat (t - l) = 2 ^ 64 - (unat l - unat t)"
proof -
  have lt: "unat t < unat l" using assms by (simp add: word_less_nat_alt)
  have "unat l < 2 ^ 64" using unsigned_less [of l, where 'a = nat] by simp
  with lt show ?thesis by (simp add: unat_sub_if')
qed

section \<open>Radio state tracker: attribution of elapsed time\<close>

text \<open>
  C3 (sleep-bucket attribution). A node whose radio is in state Sleep and whose pointer
  to the node mode is not nil gets the whole delta \<open>timestamp - Timestamp\<close> added to
  exactly one accumulator, and which one depends on the node mode: the sleep time when
  \<open>RxOnWhenIdle\<close> is off, the disabled time when it is on. Nothing else of the node
  changes but the timestamp.
\<close>

theorem ComputeRadioState_Sleep:
  assumes "State (radio node) = RadioSleep" and "nodeMode node = Some a"
  shows "ComputeRadioState h node timestamp =
           Inr (node\<lparr>radio :=
             (if RxOnWhenIdle (nodeModeAt h a)
              then (radio node)\<lparr>SpentDisabled := SpentDisabled (radio node) + (timestamp - Timestamp (radio node)),
                                Timestamp := timestamp\<rparr>
              else (radio node)\<lparr>SpentSleep := SpentSleep (radio node) + (timestamp - Timestamp (radio node)),
                                Timestamp := timestamp\<rparr>)\<rparr>)"
  using assms by (simp add: ComputeRadioState_def Let_def)

text \<open>A sleepy end device that slept from 3 to 10: seven microseconds of sleep time.\<close>

theorem ComputeRadioState_Sleep_witness:
  "State (radio (node1In RadioSleep 3)) = RadioSleep \<and>
   nodeMode (node1In RadioSleep 3) = Some 0 \<and>
   ComputeRadioState heapSleepy (node1In RadioSleep 3) 10 =
     Inr (node1\<lparr>radio := \<lparr>State = RadioSleep, SpentDisabled = 0, SpentSleep = 7, SpentRx = 0,
                           SpentTx = [], Timestamp = 10\<rparr>\<rparr>)"
proof -
  have s: "State (radio (node1In RadioSleep 3)) = RadioSleep"
    by (simp add: node1In_def)
  have m: "nodeMode (node1In RadioSleep 3) = Some 0"
    by (simp add: node1In_def node1_pointers)
  from ComputeRadioState_Sleep [OF s m, of heapSleepy 10] s m show ?thesis
    by (simp add: node1In_def node1_radio heapSleepy_def)
qed

text \<open>
  With \<open>RxOnWhenIdle\<close> on, the ten microseconds a node spent in state Sleep go to the
  disabled time and the sleep time stays 0.
\<close>

theorem ComputeRadioState_Sleep_counterexample:
  "State (radio (node1In RadioSleep 0)) = RadioSleep \<and>
   ComputeRadioState heapIdle (node1In RadioSleep 0) 10 =
     Inr (node1\<lparr>radio := \<lparr>State = RadioSleep, SpentDisabled = 10, SpentSleep = 0, SpentRx = 0,
                           SpentTx = [], Timestamp = 10\<rparr>\<rparr>)"
  by (simp add: ComputeRadioState_def node1In_def node1_radio node1_pointers heapIdle_def)

text \<open>
  On the nil pointer the branch for Sleep panics, as the branch for Transmit does on a
  nil pointer to the transmit power.
\<close>

lemma ComputeRadioState_Sleep_nil:
  "State (radio node) = RadioSleep \<Longrightarrow> nodeMode node = None \<Longrightarrow>
   ComputeRadioState h node timestamp = Inl NilPointerDereference"
  by (simp add: ComputeRadioState_def Let_def)

lemma ComputeRadioState_Tx_nil:
  "State (radio node) = RadioTx \<Longrightarrow> txPower node = None \<Longrightarrow>
   ComputeRadioState h node timestamp = Inl NilPointerDereference"
  by (simp add: ComputeRadioState_def Let_def)

text \<open>The earlier variant of the function has no node mode and always charges the sleep time.\<close>

lemma ComputeRadioState_v0_Sleep:
  "State (radio node) = RadioSleep \<Longrightarrow>
   ComputeRadioState_v0 h node timestamp =
     Inr (node\<lparr>radio := (radio node)\<lparr>SpentSleep := SpentSleep (radio node) + (timestamp - Timestamp (radio node)),
                                     Timestamp := timestamp\<rparr>\<rparr>)"
  by (simp add: ComputeRadioState_v0_def Let_def)

text \<open>
  C10 (clock regression). When the timestamp is strictly smaller than the stored one,
  the delta \<open>d\<close> is the wrapped difference, of value \<open>2^64 - (Timestamp - timestamp)\<close>,
  and adding it to an accumulator adds that value modulo \<open>2^64\<close>. There is no check: in
  state Disabled or Receive, in state Sleep with a node mode and in state Transmit with
  a transmit power the call returns normally, adds \<open>d\<close> to the one accumulator that the
  state charges (the disabled time for Disabled and for Sleep with \<open>RxOnWhenIdle\<close>, the
  sleep time for Sleep without it, the receive time for Receive, the time of the current
  level for Transmit, on top of what the level had) and sets the stored timestamp back
  to the given one. In state Invalid only the timestamp is set back.
\<close>

theorem ComputeRadioState_clock_regression:
  assumes "timestamp < Timestamp (radio node)"
  shows "\<exists>d :: u64.
    unat d = 2 ^ 64 - (unat (Timestamp (radio node)) - unat timestamp) \<and>
    (\<forall>b :: u64. unat (b + d) =
       (unat b + (2 ^ 64 - (unat (Timestamp (radio node)) - unat timestamp))) mod 2 ^ 64) \<and>
    (State (radio node) = RadioDisabled \<longrightarrow>
       ComputeRadioState h node timestamp =
         Inr (node\<lparr>radio := (radio node)\<lparr>SpentDisabled := SpentDisabled (radio node) + d,
                                         Timestamp := timestamp\<rparr>\<rparr>)) \<and>
    (State (radio node) = RadioRx \<longrightarrow>
       ComputeRadioState h node timestamp =
         Inr (node\<lparr>radio := (radio node)\<lparr>SpentRx := SpentRx (radio node) + d,
                                         Timestamp := timestamp\<rparr>\<rparr>)) \<and>
    (State (radio node) = RadioSleep \<longrightarrow>
       (\<forall>a. nodeMode node = Some a \<longrightarrow>
          ComputeRadioState h node timestamp =
            Inr (node\<lparr>radio :=
              (if RxOnWhenIdle (nodeModeAt h a)
               then (radio node)\<lparr>SpentDisabled := SpentDisabled (radio node) + d,
                                 Timestamp := timestamp\<rparr>
               else (radio node)\<lparr>SpentSleep := SpentSleep (radio node) + d,
                                 Timestamp := timestamp\<rparr>)\<rparr>))) \<and>
    (State (radio node) = RadioTx \<longrightarrow>
       (\<forall>a. txPower node = Some a \<longrightarrow>
          ComputeRadioState h node timestamp =
            Inr (node\<lparr>radio := (radio node)\<lparr>
              SpentTx := AList.update (dbValueAt h a)
                ((case map_of (SpentTx (radio node)) (dbValueAt h a) of
                    None \<Rightarrow> 0 | Some spent \<Rightarrow> spent) + d)
                (SpentTx (radio node)),
              Timestamp := timestamp\<rparr>\<rparr>))) \<and>
    (State (radio node) = RadioInvalid \<longrightarrow>
       ComputeRadioState h node timestamp =
         Inr (node\<lparr>radio := (radio node)\<lparr>Timestamp := timestamp\<rparr>\<rparr>))"
proof -
  let ?d = "timestamp - Timestamp (radio node)"
  have d: "unat ?d = 2 ^ 64 - (unat (Timestamp (radio node)) - unat timestamp)"
    using assms by (rule unat_wrapped_delta)
  have m: "\<forall>b :: u64. unat (b + ?d) =
           (unat b + (2 ^ 64 - (unat (Timestamp (radio node)) - unat timestamp))) mod 2 ^ 64"
    unfolding d [symmetric] by (simp add: unat_word_ariths)
  have t: "State (radio node) = RadioDisabled \<longrightarrow>
       ComputeRadioState h node timestamp =
         Inr (node\<lparr>radio := (radio node)\<lparr>SpentDisabled := SpentDisabled (radio node) + ?d,
                                         Timestamp := timestamp\<rparr>\<rparr>)"
    and "State (radio node) = RadioRx \<longrightarrow>
       ComputeRadioState h node timestamp =
         Inr (node\<lparr>radio := (radio node)\<lparr>SpentRx := SpentRx (radio node) + ?d,
                                         Timestamp := timestamp\<rparr>\<rparr>)"
    and "State (radio node) = RadioSleep \<longrightarrow>
       (\<forall>a. nodeMode node = Some a \<longrightarrow>
          ComputeRadioState h node timestamp =
            Inr (node\<lparr>radio :=
              (if RxOnWhenIdle (nodeModeAt h a)
               then (radio node)\<lparr>SpentDisabled := SpentDisabled (radio node) + ?d,
                                 Timestamp := timestamp\<rparr>
               else (radio node)\<lparr>SpentSleep := SpentSleep (radio node) + ?d,
                                 Timestamp := timestamp\<rparr>)\<rparr>))"
    and "State (radio node) = RadioTx \<longrightarrow>
       (\<forall>a. txPower node = Some a \<longrightarrow>
          ComputeRadioState h node timestamp =
            Inr (node\<lparr>radio := (radio node)\<lparr>
              SpentTx := AList.update (dbValueAt h a)
                ((case map_of (SpentTx (radio node)) (dbValueAt h a) of
                    None \<Rightarrow> 0 | Some spent \<Rightarrow> spent) + ?d)
                (SpentTx (radio node)),
              Timestamp := timestamp\<rparr>\<rparr>))"
    and "State (radio node) = RadioInvalid \<longrightarrow>
       ComputeRadioState h node timestamp =
         Inr (node\<lparr>radio := (radio node)\<lparr>Timestamp := timestamp\<rparr>\<rparr>)"
    by (simp_all add: ComputeRadioState_def Let_def mapIndex_def)
  with d m show ?thesis by (intro exI [of _ ?d]) blast
qed

text \<open>
  A node that has transmitted for 4 microseconds at level 0, last stamped at 10 and
  asked to account up to 3: the time at level 0 becomes \<open>4 + (2^64 - 7)\<close>.
\<close>

theorem ComputeRadioState_clock_regression_witness:
  "(3 :: u64) < Timestamp (radio node1Tx) \<and>
   State (radio node1Tx) = RadioTx \<and> txPower node1Tx = Some 0 \<and>
   SpentTx (radio node1Tx) = [(0, 4)] \<and>
   ComputeRadioState heapIdle node1Tx 3 =
     Inr (node1\<lparr>radio := \<lparr>State = RadioTx, SpentDisabled = 0, SpentSleep = 0, SpentRx = 0,
                           SpentTx = [(0, 18446744073709551613)], Timestamp = 3\<rparr>\<rparr>)"
proof -
  have lt: "(3 :: u64) < Timestamp (radio node1Tx)" by (simp add: node1Tx_def)
  have st: "State (radio node1Tx) = RadioTx" "txPower node1Tx = Some 0"
    "SpentTx (radio node1Tx) = [(0, 4)]"
    by (simp_all add: node1Tx_def node1_pointers)
  from ComputeRadioState_clock_regression [OF lt, of heapIdle] st obtain d :: u64 where
    d: "unat d = 2 ^ 64 - (unat (Timestamp (radio node1Tx)) - unat (3 :: u64))"
    and r: "ComputeRadioState heapIdle node1Tx 3 =
        Inr (node1Tx\<lparr>radio := (radio node1Tx)\<lparr>
          SpentTx := AList.update (dbValueAt heapIdle 0)
            ((case map_of (SpentTx (radio node1Tx)) (dbValueAt heapIdle 0) of
                None \<Rightarrow> 0 | Some spent \<Rightarrow> spent) + d)
            (SpentTx (radio node1Tx)),
          Timestamp := 3\<rparr>\<rparr>)"
    by blast
  have "unat d = unat (18446744073709551609 :: u64)" using d by (simp add: node1Tx_def)
  then have "d = 18446744073709551609" by (rule word_unat_eq_iff [THEN iffD2])
  with r lt st show ?thesis by (simp add: node1Tx_def heapIdle_def node1_radio)
qed

text \<open>
  The same regression from 10 to 3 in three other states: a node asleep with
  \<open>RxOnWhenIdle\<close> on has the wrapped delta added to its disabled time and not to its
  sleep time, a node in state Invalid has it added nowhere, and a state value outside
  the five names panics.
\<close>

theorem ComputeRadioState_clock_regression_counterexample:
  "ComputeRadioState heapIdle (node1In RadioSleep 10) 3 =
     Inr (node1\<lparr>radio := \<lparr>State = RadioSleep, SpentDisabled = 18446744073709551609,
                           SpentSleep = 0, SpentRx = 0, SpentTx = [], Timestamp = 3\<rparr>\<rparr>) \<and>
   ComputeRadioState heapIdle (node1In RadioInvalid 10) 3 =
     Inr (node1\<lparr>radio := \<lparr>State = RadioInvalid, SpentDisabled = 0, SpentSleep = 0, SpentRx = 0,
                           SpentTx = [], Timestamp = 3\<rparr>\<rparr>) \<and>
   ComputeRadioState heapIdle (node1In (RadioOther 7) 10) 3 = Inl PanicUnknownRadioState"
  by (simp add: ComputeRadioState_def node1In_def node1_radio node1_pointers heapIdle_def)

section \<open>Radio state tracker: conservation of time\<close>

lemma unat_plus_exact:
  fixes b d :: u64
  assumes "unat b + unat d < 2 ^ 64"
  shows "unat (b + d) = unat b + unat d"
  using assms by (simp add: unat_add_lem [THEN iffD1])

lemma sum_SpentTx_update:
  fixes m :: SpentTxMap and d :: u64
  assumes "sum_list (map (\<lambda>kv. unat (snd kv)) m) + unat d < 2 ^ 64"
  shows "sum_list (map (\<lambda>kv. unat (snd kv)) (AList.update k (mapIndex m k + d) m)) =
         sum_list (map (\<lambda>kv. unat (snd kv)) m) + unat d"
  using assms
proof (induction m)
  case Nil
  then show ?case by (simp add: mapIndex_def)
next
  case (Cons kv m)
  obtain k' v' where kv: "kv = (k', v')" by (cases kv)
  show ?case
  proof (cases "k' = k")
    case True
    have "unat v' + unat d < 2 ^ 64" using Cons.prems kv by simp
    then have "unat (v' + d) = unat v' + unat d" by (rule unat_plus_exact)
    then show ?thesis using True kv by (simp add: mapIndex_def)
  next
    case False
    have "sum_list (map (\<lambda>kv. unat (snd kv)) m) + unat d < 2 ^ 64" using Cons.prems by simp
    from Cons.IH [OF this] have
      "sum_list (map (\<lambda>kv. unat (snd kv)) (AList.update k (mapIndex m k + d) m)) =
       sum_list (map (\<lambda>kv. unat (snd kv)) m) + unat d" .
    moreover have "mapIndex (kv # m) k = mapIndex m k" using False kv by (simp add: mapIndex_def)
    ultimately show ?thesis using False kv by simp
  qed
qed

lemma newNode_fields:
  assumes "newNode reg nodeID t0 model txp mode = Inr node"
  shows "State (radio node) = RadioDisabled" "Timestamp (radio node) = t0"
    "txPower node = txp" "nodeMode node = mode" "conserved t0 node"
  using assms
  by (auto simp: newNode_def conserved_def spentTotal_def split: option.splits)

lemma ComputeRadioState_conserved:
  assumes inv: "conserved t0 node"
    and acc: "accounted (State (radio node))"
    and le: "Timestamp (radio node) \<le> timestamp"
    and mode: "State (radio node) = RadioSleep \<longrightarrow> nodeMode node \<noteq> None"
    and power: "State (radio node) = RadioTx \<longrightarrow> txPower node \<noteq> None"
  shows "\<exists>node'. ComputeRadioState h node timestamp = Inr node' \<and> conserved t0 node' \<and>
           Timestamp (radio node') = timestamp \<and> State (radio node') = State (radio node) \<and>
           txPower node' = txPower node \<and> nodeMode node' = nodeMode node"
proof -
  let ?r = "radio node"
  let ?d = "timestamp - Timestamp ?r"
  have t0le: "t0 \<le> Timestamp ?r" and tot: "spentTotal node = unat (Timestamp ?r) - unat t0"
    and dist: "distinct (map fst (SpentTx ?r))"
    using inv by (simp_all add: conserved_def)
  have d: "unat ?d = unat timestamp - unat (Timestamp ?r)" using le by (rule unat_sub)
  have n1: "unat t0 \<le> unat (Timestamp ?r)" using t0le by (simp add: word_le_nat_alt)
  have n2: "unat (Timestamp ?r) \<le> unat timestamp" using le by (simp add: word_le_nat_alt)
  have n3: "unat timestamp < 2 ^ 64" using unsigned_less [of timestamp, where 'a = nat] by simp
  have room: "spentTotal node + unat ?d < 2 ^ 64" using tot d n1 n2 n3 by linarith
  have goal: "spentTotal node + unat ?d = unat timestamp - unat t0" using tot d n1 n2 by linarith
  have t0le': "t0 \<le> timestamp" using t0le le by simp
  show ?thesis
  proof (cases "State ?r")
    case RadioDisabled
    have "unat (SpentDisabled ?r + ?d) = unat (SpentDisabled ?r) + unat ?d"
      using room by (intro unat_plus_exact) (simp add: spentTotal_def)
    then show ?thesis using RadioDisabled goal t0le' dist
      by (simp add: ComputeRadioState_def Let_def conserved_def spentTotal_def)
  next
    case RadioSleep
    then obtain a where a: "nodeMode node = Some a" using mode by auto
    have "unat (SpentDisabled ?r + ?d) = unat (SpentDisabled ?r) + unat ?d"
      using room by (intro unat_plus_exact) (simp add: spentTotal_def)
    moreover have "unat (SpentSleep ?r + ?d) = unat (SpentSleep ?r) + unat ?d"
      using room by (intro unat_plus_exact) (simp add: spentTotal_def)
    ultimately show ?thesis using RadioSleep a goal t0le' dist
      by (simp add: ComputeRadioState_def Let_def conserved_def spentTotal_def)
  next
    case RadioTx
    then obtain a where a: "txPower node = Some a" using power by auto
    have "sum_list (map (\<lambda>kv. unat (snd kv)) (SpentTx ?r)) + unat ?d < 2 ^ 64"
      using room by (simp add: spentTotal_def)
    from sum_SpentTx_update [OF this] show ?thesis using RadioTx a goal t0le' dist
      by (simp add: ComputeRadioState_def Let_def conserved_def spentTotal_def distinct_update)
  next
    case RadioRx
    have "unat (SpentRx ?r + ?d) = unat (SpentRx ?r) + unat ?d"
      using room by (intro unat_plus_exact) (simp add: spentTotal_def)
    then show ?thesis using RadioRx goal t0le' dist
      by (simp add: ComputeRadioState_def Let_def conserved_def spentTotal_def)
  next
    case RadioInvalid
    then show ?thesis using acc by simp
  next
    case (RadioOther v)
    then show ?thesis using acc by simp
  qed
qed

lemma SetRadioState_conserved:
  assumes "conserved t0 node" "accounted (State (radio node))" "Timestamp (radio node) \<le> timestamp"
    and "State (radio node) = RadioSleep \<longrightarrow> nodeMode node \<noteq> None"
    and "State (radio node) = RadioTx \<longrightarrow> txPower node \<noteq> None"
  shows "\<exists>node'. SetRadioState h node state timestamp = Inr node' \<and> conserved t0 node' \<and>
           Timestamp (radio node') = timestamp \<and> State (radio node') = state \<and>
           txPower node' = txPower node \<and> nodeMode node' = nodeMode node"
proof -
  from ComputeRadioState_conserved [OF assms, of h] obtain n where
    n: "ComputeRadioState h node timestamp = Inr n" "conserved t0 n" "Timestamp (radio n) = timestamp"
       "txPower n = txPower node" "nodeMode n = nodeMode node"
    by blast
  then show ?thesis
    by (simp add: SetRadioState_def conserved_def spentTotal_def)
qed

lemma SetRadioStates_conserved:
  assumes "conserved t0 node" "accounted (State (radio node))"
    and "sorted (Timestamp (radio node) # map callTime calls)"
    and "\<forall>c \<in> set (butlast calls). accounted (callState c)"
    and "State (radio node) = RadioSleep \<or> RadioSleep \<in> callState ` set (butlast calls) \<longrightarrow>
           nodeMode node \<noteq> None"
    and "State (radio node) = RadioTx \<or> RadioTx \<in> callState ` set (butlast calls) \<longrightarrow>
           txPower node \<noteq> None"
  shows "\<exists>node'. SetRadioStates node calls = Inr node' \<and> conserved t0 node' \<and>
           Timestamp (radio node') = last (Timestamp (radio node) # map callTime calls)"
  using assms
proof (induction calls arbitrary: node)
  case Nil
  then show ?case by simp
next
  case (Cons c calls)
  obtain h state timestamp where c: "c = (h, state, timestamp)" by (cases c)
  have le: "Timestamp (radio node) \<le> timestamp" using Cons.prems(3) c by simp
  have mode: "State (radio node) = RadioSleep \<longrightarrow> nodeMode node \<noteq> None"
    using Cons.prems(5) by blast
  have power: "State (radio node) = RadioTx \<longrightarrow> txPower node \<noteq> None"
    using Cons.prems(6) by blast
  from SetRadioState_conserved [OF Cons.prems(1,2) le mode power, of h state] obtain n where
    n: "SetRadioState h node state timestamp = Inr n" "conserved t0 n"
       "Timestamp (radio n) = timestamp" "State (radio n) = state"
       "txPower n = txPower node" "nodeMode n = nodeMode node" by blast
  show ?case
  proof (cases calls)
    case Nil
    then show ?thesis using n c by simp
  next
    case more: (Cons c' calls')
    have first: "state \<in> callState ` set (butlast (c # calls))"
      using more c by simp
    have rest: "callState ` set (butlast calls) \<subseteq> callState ` set (butlast (c # calls))"
      using more by auto
    have a: "accounted (State (radio n))"
      using Cons.prems(4) n(4) c more by simp
    have s: "sorted (Timestamp (radio n) # map callTime calls)"
      using Cons.prems(3) c n(3) by simp
    have b: "\<forall>c \<in> set (butlast calls). accounted (callState c)"
      using Cons.prems(4) more by simp
    have m': "State (radio n) = RadioSleep \<or> RadioSleep \<in> callState ` set (butlast calls) \<longrightarrow>
           nodeMode n \<noteq> None"
    proof
      assume d: "State (radio n) = RadioSleep \<or> RadioSleep \<in> callState ` set (butlast calls)"
      have "RadioSleep \<in> callState ` set (butlast (c # calls))"
      proof (cases "State (radio n) = RadioSleep")
        case True
        then have "state = RadioSleep" using n(4) by simp
        then show ?thesis using first by (simp only:)
      next
        case False
        with d have "RadioSleep \<in> callState ` set (butlast calls)" by simp
        then show ?thesis by (rule rest [THEN subsetD])
      qed
      then have "nodeMode node \<noteq> None" using Cons.prems(5) by blast
      then show "nodeMode n \<noteq> None" unfolding n(6) .
    qed
    have p': "State (radio n) = RadioTx \<or> RadioTx \<in> callState ` set (butlast calls) \<longrightarrow>
           txPower n \<noteq> None"
    proof
      assume d: "State (radio n) = RadioTx \<or> RadioTx \<in> callState ` set (butlast calls)"
      have "RadioTx \<in> callState ` set (butlast (c # calls))"
      proof (cases "State (radio n) = RadioTx")
        case True
        then have "state = RadioTx" using n(4) by simp
        then show ?thesis using first by (simp only:)
      next
        case False
        with d have "RadioTx \<in> callState ` set (butlast calls)" by simp
        then show ?thesis by (rule rest [THEN subsetD])
      qed
      then have "txPower node \<noteq> None" using Cons.prems(6) by blast
      then show "txPower n \<noteq> None" unfolding n(5) .
    qed
    from Cons.IH [OF n(2) a s b m' p'] show ?thesis using n c more by simp
  qed
qed

text \<open>
  C1 (time conservation). A node created at \<open>t0\<close> (in state Disabled, all accumulators
  zero) goes through any sequence of \<^verbatim>\<open>SetRadioState\<close> calls with non-decreasing
  timestamps, where every state set before the last call is one whose time is accounted
  (Disabled, Sleep, Transmit or Receive), the pointer to the node mode is not nil if
  Sleep is among these states, and the pointer to the transmit power is not nil if
  Transmit is. Then every call returns normally and the accumulators add up, without
  wrap-around, to the time elapsed between \<open>t0\<close> and the last timestamp. The heap
  (transmit power, node mode) may differ from call to call. On a node in state Invalid,
  whatever its history, a \<^verbatim>\<open>SetRadioState\<close> call changes the timestamp and the state and
  no accumulator: the time spent in state Invalid is accounted for nowhere.
\<close>

theorem SetRadioStates_conservation:
  assumes "newNode reg nodeID t0 model txp mode = Inr node0"
    and "sorted (t0 # map callTime calls)"
    and "\<forall>c \<in> set (butlast calls). accounted (callState c)"
    and "RadioSleep \<in> callState ` set (butlast calls) \<longrightarrow> mode \<noteq> None"
    and "RadioTx \<in> callState ` set (butlast calls) \<longrightarrow> txp \<noteq> None"
  shows "(\<exists>node. SetRadioStates node0 calls = Inr node \<and>
           Timestamp (radio node) = last (t0 # map callTime calls) \<and>
           distinct (map fst (SpentTx (radio node))) \<and>
           spentTotal node = unat (last (t0 # map callTime calls)) - unat t0) \<and>
         (\<forall>h n state timestamp. State (radio n) = RadioInvalid \<longrightarrow>
            SetRadioState h n state timestamp =
              Inr (n\<lparr>radio := (radio n)\<lparr>Timestamp := timestamp, State := state\<rparr>\<rparr>))"
proof -
  note f = newNode_fields [OF assms(1)]
  have a: "accounted (State (radio node0))" using f(1) by simp
  have s: "sorted (Timestamp (radio node0) # map callTime calls)" using assms(2) f(2) by simp
  have m: "State (radio node0) = RadioSleep \<or> RadioSleep \<in> callState ` set (butlast calls) \<longrightarrow>
           nodeMode node0 \<noteq> None"
    using assms(4) f(1,4) by simp
  have p: "State (radio node0) = RadioTx \<or> RadioTx \<in> callState ` set (butlast calls) \<longrightarrow>
           txPower node0 \<noteq> None"
    using assms(5) f(1,3) by simp
  from SetRadioStates_conserved [OF f(5) a s assms(3) m p] obtain node where
    "SetRadioStates node0 calls = Inr node" "conserved t0 node"
    "Timestamp (radio node) = last (Timestamp (radio node0) # map callTime calls)"
    by blast
  then have "\<exists>node. SetRadioStates node0 calls = Inr node \<and>
           Timestamp (radio node) = last (t0 # map callTime calls) \<and>
           distinct (map fst (SpentTx (radio node))) \<and>
           spentTotal node = unat (last (t0 # map callTime calls)) - unat t0"
    using f(2) by (auto simp: conserved_def)
  moreover have "\<forall>h n state timestamp. State (radio n) = RadioInvalid \<longrightarrow>
            SetRadioState h n state timestamp =
              Inr (n\<lparr>radio := (radio n)\<lparr>Timestamp := timestamp, State := state\<rparr>\<rparr>)"
    by (simp add: SetRadioState_def ComputeRadioState_def Let_def)
  ultimately show ?thesis by blast
qed

text \<open>
  Node 1, created at 0: disabled until 5, asleep until 7, transmitting until 12,
  receiving until 20. Once it is in state Invalid, a call at 30 accounts for nothing.
\<close>

theorem SetRadioStates_conservation_witness:
  "newNode DeviceModels 1 0 (Some ''stm32wb55rg'') (Some 0) (Some 0) = Inr node1 \<and>
   sorted [0 :: u64, 5, 7, 12, 20] \<and>
   (\<exists>node. SetRadioStates node1
            [(heapIdle, RadioSleep, 5), (heapSleepy, RadioTx, 7), (heapIdle, RadioRx, 12),
             (heapIdle, RadioInvalid, 20)] = Inr node \<and>
          Timestamp (radio node) = 20 \<and> spentTotal node = 20) \<and>
   SetRadioStates node1
     [(heapIdle, RadioSleep, 5), (heapSleepy, RadioTx, 7), (heapIdle, RadioRx, 12),
      (heapIdle, RadioInvalid, 20)] =
     Inr (node1\<lparr>radio := \<lparr>State = RadioInvalid, SpentDisabled = 5, SpentSleep = 2, SpentRx = 8,
                           SpentTx = [(0, 5)], Timestamp = 20\<rparr>\<rparr>) \<and>
   SetRadioState heapIdle (node1In RadioInvalid 20) RadioRx 30 = Inr (node1In RadioRx 30)"
proof -
  let ?calls = "[(heapIdle, RadioSleep, 5), (heapSleepy, RadioTx, 7), (heapIdle, RadioRx, 12),
                 (heapIdle, RadioInvalid, 20 :: u64)]"
  have s: "sorted (0 # map callTime ?calls)" by simp
  have a: "\<forall>c \<in> set (butlast ?calls). accounted (callState c)" by simp
  have m: "RadioSleep \<in> callState ` set (butlast ?calls) \<longrightarrow> Some (0 :: nat) \<noteq> None" by simp
  have p: "RadioTx \<in> callState ` set (butlast ?calls) \<longrightarrow> Some (0 :: nat) \<noteq> None" by simp
  note c = SetRadioStates_conservation [OF newNode_node1 s a m p]
  from c obtain node where "SetRadioStates node1 ?calls = Inr node"
    "Timestamp (radio node) = last (0 # map callTime ?calls)"
    "spentTotal node = unat (last (0 # map callTime ?calls)) - unat (0 :: u64)"
    by blast
  then have "\<exists>node. SetRadioStates node1 ?calls = Inr node \<and>
          Timestamp (radio node) = 20 \<and> spentTotal node = 20"
    by simp
  moreover have "SetRadioStates node1 ?calls =
     Inr (node1\<lparr>radio := \<lparr>State = RadioInvalid, SpentDisabled = 5, SpentSleep = 2, SpentRx = 8,
                           SpentTx = [(0, 5)], Timestamp = 20\<rparr>\<rparr>)"
    by (simp add: SetRadioState_def ComputeRadioState_def node1_radio node1_pointers
        heapIdle_def heapSleepy_def mapIndex_def)
  moreover have "State (radio (node1In RadioInvalid 20)) = RadioInvalid"
    by (simp add: node1In_def)
  with c have "SetRadioState heapIdle (node1In RadioInvalid 20) RadioRx 30 =
      Inr ((node1In RadioInvalid 20)\<lparr>radio :=
             (radio (node1In RadioInvalid 20))\<lparr>Timestamp := 30, State := RadioRx\<rparr>\<rparr>)"
    by blast
  then have "SetRadioState heapIdle (node1In RadioInvalid 20) RadioRx 30 = Inr (node1In RadioRx 30)"
    by (simp add: node1In_def)
  ultimately show ?thesis using newNode_node1 by simp
qed

text \<open>
  Time spent in state Invalid is added to no accumulator: a node created at 0, set to
  Invalid at 0 and to Receive at 10 has accounted for none of the ten microseconds.
\<close>

theorem SetRadioStates_conservation_counterexample:
  "sorted [0 :: u64, 0, 10] \<and>
   SetRadioStates node1 [(heapIdle, RadioInvalid, 0), (heapIdle, RadioRx, 10)] =
     Inr (node1In RadioRx 10) \<and>
   spentTotal (node1In RadioRx 10) = 0 \<and>
   spentTotal (node1In RadioRx 10) \<noteq> unat (10 :: u64) - unat (0 :: u64)"
  by (simp add: SetRadioState_def ComputeRadioState_def node1In_def node1_radio spentTotal_def)

text \<open>
  A node registered with nil pointers, set to Sleep at 5 and to Receive at 9: the second
  call finds it asleep and panics on the node mode.
\<close>

lemma SetRadioStates_nil_nodeMode:
  "SetRadioStates (node1\<lparr>txPower := None, nodeMode := None\<rparr>)
     [(heapIdle, RadioSleep, 5), (heapIdle, RadioRx, 9)] = Inl NilPointerDereference"
  by (simp add: SetRadioState_def ComputeRadioState_def node1_radio)

section \<open>Energy calculator: the draw of a transmit level\<close>



lemma mapIndex_Some: "map_of m k = Some v \<Longrightarrow> mapIndex m k = v"
  by (simp add: mapIndex_def)








section \<open>Network aggregator: example states\<close>

lemma registered_node1:
  "AddNode DeviceModels NewEnergyAnalyser 1 0 (Some ''stm32wb55rg'') (Some 0) (Some 0) =
     Inr \<lparr>nodes = [(1, node1)], networkHistory = [], energyHistoryByNodes = [], title = []\<rparr>"
  by (simp add: AddNode_def NewEnergyAnalyser_def newNode_node1)

lemma registered_node2:
  "AddNode DeviceModels capturedOnce 2 7 (Some ''nrf52840'') (Some 2) (Some 3) = Inr twoNodes"
  by (simp add: AddNode_def newNode_node2 twoNodes_def capturedOnce_def)

lemma node1_NodeId: "NodeId node1 = 1"
  by (simp add: node1_def)

lemma derefModel_node1:
  "Model n = Some ''stm32wb55rg'' \<Longrightarrow> derefModel DeviceModels n = Inr dm_stm32wb55rg"
  by (simp add: derefModel_def DeviceModels_def)

lemma snapshot_node1:
  "snapshotNode heapIdle DeviceModels (node1\<lparr>radio := (radio node1)\<lparr>SpentDisabled := x, Timestamp := t\<rparr>\<rparr>) t' =
     Inr (node1\<lparr>radio := (radio node1)\<lparr>SpentDisabled := x + (t' - t), Timestamp := t'\<rparr>\<rparr>,
          DeviceModels,
          \<lparr>NodeId = 1, Disabled = 0.00000011 * real (unat (x + (t' - t))), Sleep = 0, Tx = 0, Rx = 0\<rparr>)"
  by (simp add: snapshotNode_def ComputeRadioState_def node1_radio
      CalculateDisabledEnergy_def CalculateSleepEnergy_def CalculateTxEnergy_def
      CalculateRxEnergy_def derefModel_node1 node1_Model dm_stm32wb55rg_def node1_NodeId)

lemma node1_as_update:
  "node1 = node1\<lparr>radio := (radio node1)\<lparr>SpentDisabled := 0, Timestamp := 0\<rparr>\<rparr>"
  by (simp add: node1_def)

lemma capture_node1:
  "StoreNetworkEnergy heapIdle DeviceModels
     \<lparr>nodes = [(1, node1)], networkHistory = [], energyHistoryByNodes = [], title = []\<rparr> 5 =
   Inr (DeviceModels, capturedOnce)"
  "capturedBy heapIdle DeviceModels
     \<lparr>nodes = [(1, node1)], networkHistory = [], energyHistoryByNodes = [], title = []\<rparr> 5 =
   Some capture5"
  by (subst node1_as_update, simp add: StoreNetworkEnergy_def capturedBy_def snapshot_node1
      capturedOnce_def capture5_def)+

lemma capture_again:
  "StoreNetworkEnergy heapIdle DeviceModels capturedOnce 9 = Inr (DeviceModels, capturedTwice)"
  "capturedBy heapIdle DeviceModels capturedOnce 9 = Some capture9"
  by (simp_all add: StoreNetworkEnergy_def capturedBy_def snapshot_node1 capturedOnce_def
      capturedTwice_def capture5_def capture9_def)

lemma reachable_capturedOnce: "reachable DeviceModels capturedOnce [capture5]"
proof -
  have "reachable DeviceModels
          \<lparr>nodes = [(1, node1)], networkHistory = [], energyHistoryByNodes = [], title = []\<rparr> []"
    using reachable.register [OF reachable.fresh registered_node1]
    by (simp add: capturesKept_def)
  from reachable.capture [OF this capture_node1] show ?thesis by simp
qed

lemma reachable_capturedTwice: "reachable DeviceModels capturedTwice [capture5, capture9]"
  using reachable.capture [OF reachable_capturedOnce capture_again] by simp

section \<open>Network aggregator: registration and deregistration\<close>

text \<open>
  C9 (re-registration). \<^verbatim>\<open>AddNode\<close> with an id that is already registered returns
  normally with the analyser it was given: the node map with the node registered first,
  both histories and the title are the same, whatever timestamp, model name, transmit
  power and node mode the second call gives.
\<close>

theorem AddNode_registered_noop:
  "map_of (nodes e) nodeID \<noteq> None \<Longrightarrow> AddNode reg e nodeID timestamp model txp mode = Inr e"
  by (simp add: AddNode_def)

text \<open>
  Node 1 of \<open>capturedOnce\<close> registered again at 99 as an ESP32-H2, and once more with
  three nil pointers, which are not dereferenced.
\<close>

theorem AddNode_registered_noop_witness:
  "map_of (nodes capturedOnce) 1 \<noteq> None \<and>
   AddNode DeviceModels capturedOnce 1 99 (Some ''esp32h2'') (Some 7) (Some 7) = Inr capturedOnce \<and>
   AddNode DeviceModels capturedOnce 1 99 None None None = Inr capturedOnce"
proof -
  have r: "map_of (nodes capturedOnce) 1 \<noteq> None" by (simp add: capturedOnce_def)
  from AddNode_registered_noop [OF r] r show ?thesis by simp
qed

lemma delete_empty_iff: "AList.delete k xs = [] \<longleftrightarrow> fst ` set xs \<subseteq> {k}"
  by (induction xs) (auto simp: AList.delete_eq)

text \<open>
  C8 (history reset on the last deregistration). When the node map holds exactly the
  node with the given id, \<^verbatim>\<open>DeleteNode\<close> leaves the map empty and both histories empty.
  When a node with another id is registered, \<^verbatim>\<open>DeleteNode\<close> only removes the entry: the
  map stays non-empty and both histories are as before.
\<close>

theorem DeleteNode_last_resets:
  "(fst ` set (nodes e) = {nodeID} \<longrightarrow>
      DeleteNode e nodeID = e\<lparr>nodes := [], networkHistory := [], energyHistoryByNodes := []\<rparr>) \<and>
   ((\<exists>k \<in> fst ` set (nodes e). k \<noteq> nodeID) \<longrightarrow>
      DeleteNode e nodeID = e\<lparr>nodes := AList.delete nodeID (nodes e)\<rparr> \<and>
      nodes (DeleteNode e nodeID) \<noteq> [] \<and>
      networkHistory (DeleteNode e nodeID) = networkHistory e \<and>
      energyHistoryByNodes (DeleteNode e nodeID) = energyHistoryByNodes e)"
proof (intro conjI impI)
  assume "fst ` set (nodes e) = {nodeID}"
  then have "AList.delete nodeID (nodes e) = []" by (simp add: delete_empty_iff)
  then show "DeleteNode e nodeID = e\<lparr>nodes := [], networkHistory := [], energyHistoryByNodes := []\<rparr>"
    by (simp add: DeleteNode_def ClearEnergyData_def)
next
  assume "\<exists>k \<in> fst ` set (nodes e). k \<noteq> nodeID"
  then have ne: "AList.delete nodeID (nodes e) \<noteq> []" by (auto simp: delete_empty_iff)
  then show d: "DeleteNode e nodeID = e\<lparr>nodes := AList.delete nodeID (nodes e)\<rparr>"
    by (simp add: DeleteNode_def)
  show "nodes (DeleteNode e nodeID) \<noteq> []" using ne d by simp
  show "networkHistory (DeleteNode e nodeID) = networkHistory e" using d by simp
  show "energyHistoryByNodes (DeleteNode e nodeID) = energyHistoryByNodes e" using d by simp
qed

text \<open>
  Deleting node 1 from \<open>capturedOnce\<close> gives the fresh analyser; with node 2 registered
  as well, deleting node 1 keeps the snapshot and the batch.
\<close>

theorem DeleteNode_last_resets_witness:
  "fst ` set (nodes capturedOnce) = {1} \<and>
   DeleteNode capturedOnce 1 = NewEnergyAnalyser \<and>
   map fst (nodes twoNodes) = [1, 2] \<and>
   networkHistory (DeleteNode twoNodes 1) = networkHistory capturedOnce \<and>
   energyHistoryByNodes (DeleteNode twoNodes 1) = energyHistoryByNodes capturedOnce \<and>
   nodes (DeleteNode twoNodes 1) = [(2, node2)]"
proof -
  have one: "fst ` set (nodes capturedOnce) = {1}" by (simp add: capturedOnce_def)
  have two: "nodes twoNodes = nodes capturedOnce @ [(2, node2)]"
    "networkHistory twoNodes = networkHistory capturedOnce"
    "energyHistoryByNodes twoNodes = energyHistoryByNodes capturedOnce"
    by (simp_all add: twoNodes_def)
  have keys: "map fst (nodes twoNodes) = [1, 2]" by (simp add: two capturedOnce_def)
  have other: "\<exists>k \<in> fst ` set (nodes twoNodes). k \<noteq> 1" unfolding two(1) by simp
  from DeleteNode_last_resets [of capturedOnce 1] one
  have a: "DeleteNode capturedOnce 1 = NewEnergyAnalyser"
    by (simp add: capturedOnce_def NewEnergyAnalyser_def)
  from DeleteNode_last_resets [of twoNodes 1] other
  have b: "DeleteNode twoNodes 1 = twoNodes\<lparr>nodes := AList.delete 1 (nodes twoNodes)\<rparr>" by blast
  have "nodes (DeleteNode twoNodes 1) = [(2, node2)]"
    unfolding b by (simp add: two capturedOnce_def AList.delete_eq)
  moreover have "networkHistory (DeleteNode twoNodes 1) = networkHistory capturedOnce"
    "energyHistoryByNodes (DeleteNode twoNodes 1) = energyHistoryByNodes capturedOnce"
    unfolding b by (simp_all add: two)
  ultimately show ?thesis using one a keys by simp
qed

section \<open>Network aggregator: snapshot capture\<close>

text \<open>
  C4 (capture without nodes). With no registered node \<^verbatim>\<open>StoreNetworkEnergy\<close> returns
  normally: the loop body, and with it every division by the node count, is never run,
  the registry is untouched, and the call appends to the network history a snapshot
  with the given timestamp and four zero totals and to the per-node history an empty
  batch.
\<close>

theorem StoreNetworkEnergy_no_nodes:
  "nodes e = [] \<Longrightarrow>
   StoreNetworkEnergy h reg e timestamp =
     Inr (reg, e\<lparr>networkHistory := networkHistory e @
                     [\<lparr>Timestamp_nc = timestamp, EnergyConsDisabled = 0, EnergyConsSleep = 0,
                       EnergyConsTx = 0, EnergyConsRx = 0\<rparr>],
                 energyHistoryByNodes := energyHistoryByNodes e @ [[]]\<rparr>)"
  by (simp add: StoreNetworkEnergy_def)

text \<open>A capture at 9 right after the last node of \<open>capturedOnce\<close> was deregistered.\<close>

theorem StoreNetworkEnergy_no_nodes_witness:
  "nodes (DeleteNode capturedOnce 1) = [] \<and>
   StoreNetworkEnergy heapSleepy DeviceModels (DeleteNode capturedOnce 1) 9 =
     Inr (DeviceModels,
          \<lparr>nodes = [],
           networkHistory = [\<lparr>Timestamp_nc = 9, EnergyConsDisabled = 0, EnergyConsSleep = 0,
                              EnergyConsTx = 0, EnergyConsRx = 0\<rparr>],
           energyHistoryByNodes = [[]], title = []\<rparr>)"
proof -
  have d: "DeleteNode capturedOnce 1 = NewEnergyAnalyser"
    by (simp add: DeleteNode_def ClearEnergyData_def capturedOnce_def NewEnergyAnalyser_def
        AList.delete_eq)
  have n: "nodes (DeleteNode capturedOnce 1) = []" by (simp add: d NewEnergyAnalyser_def)
  from StoreNetworkEnergy_no_nodes [OF n, of heapSleepy DeviceModels 9] n show ?thesis
    by (simp add: d NewEnergyAnalyser_def)
qed

text \<open>
  A capture at 5 on the fresh analyser raises nothing, and both histories grow by one
  entry.
\<close>

theorem StoreNetworkEnergy_no_nodes_counterexample:
  "nodes NewEnergyAnalyser = [] \<and>
   networkHistory NewEnergyAnalyser = [] \<and> energyHistoryByNodes NewEnergyAnalyser = [] \<and>
   StoreNetworkEnergy heapIdle DeviceModels NewEnergyAnalyser 5 =
     Inr (DeviceModels,
          \<lparr>nodes = [],
           networkHistory = [\<lparr>Timestamp_nc = 5, EnergyConsDisabled = 0, EnergyConsSleep = 0,
                              EnergyConsTx = 0, EnergyConsRx = 0\<rparr>],
           energyHistoryByNodes = [[]], title = []\<rparr>)"
  by (simp add: StoreNetworkEnergy_def NewEnergyAnalyser_def)

section \<open>Network aggregator: the paired histories\<close>

lemma storeLoop_Timestamp:
  "storeLoop h timestamp netSize ns reg snap batch = Inr (ns', reg', snap', batch') \<Longrightarrow>
   Timestamp_nc snap' = Timestamp_nc snap"
proof (induction ns arbitrary: reg snap batch ns' reg' snap' batch')
  case Nil
  then show ?case by simp
next
  case (Cons a ns)
  obtain i node where a: "a = (i, node)" by (cases a)
  from Cons.prems a show ?case
    by (auto split: sum.splits prod.splits dest!: Cons.IH)
qed

text \<open>
  A capture appends, at the end of each history, what its loop built, and the snapshot
  carries the timestamp of the call.
\<close>

lemma StoreNetworkEnergy_appends:
  assumes "StoreNetworkEnergy h reg e timestamp = Inr (reg', e')"
    and "capturedBy h reg e timestamp = Some c"
  shows "networkHistory e' = networkHistory e @ [capturedSnapshot c]"
    and "energyHistoryByNodes e' = energyHistoryByNodes e @ [capturedBatch c]"
    and "Timestamp_nc (capturedSnapshot c) = capturedAt c"
    and "capturedAt c = timestamp"
  using assms
  by (auto simp: StoreNetworkEnergy_def capturedBy_def split: sum.splits prod.splits
      dest!: storeLoop_Timestamp)

lemma AddNode_histories:
  assumes "AddNode reg e nodeID timestamp model txp mode = Inr e'"
  shows "networkHistory e' = networkHistory e \<and> energyHistoryByNodes e' = energyHistoryByNodes e"
  using assms by (auto simp: AddNode_def split: if_splits sum.splits)

lemma SetDeviceModel_histories:
  assumes "SetDeviceModel reg e nodeID model = Inr (ok, e')"
  shows "networkHistory e' = networkHistory e \<and> energyHistoryByNodes e' = energyHistoryByNodes e"
  using assms
  by (auto simp: SetDeviceModel_def SetDeviceModel_node_def split: if_splits option.splits)

lemma DeleteNode_histories:
  "(networkHistory (DeleteNode e i) = [] \<and> energyHistoryByNodes (DeleteNode e i) = []) \<or>
   (networkHistory (DeleteNode e i) = networkHistory e \<and>
    energyHistoryByNodes (DeleteNode e i) = energyHistoryByNodes e)"
  by (simp add: DeleteNode_def ClearEnergyData_def Let_def)

lemma paired_kept:
  assumes "paired e caps"
    and "(networkHistory e' = [] \<and> energyHistoryByNodes e' = []) \<or>
         (networkHistory e' = networkHistory e \<and> energyHistoryByNodes e' = energyHistoryByNodes e)"
  shows "paired e' (capturesKept e' caps)"
  using assms by (auto simp: paired_def capturesKept_def)

lemma reachable_paired: "reachable reg e caps \<Longrightarrow> paired e caps"
proof (induction rule: reachable.induct)
  case fresh
  then show ?case by (simp add: paired_def NewEnergyAnalyser_def)
next
  case (register reg e caps nodeID timestamp model txp mode e')
  then show ?case using AddNode_histories [OF register.hyps(2)]
    by (intro paired_kept [of e]) simp_all
next
  case (deregister reg e caps e' nodeID)
  then show ?case using DeleteNode_histories [of e nodeID] by (intro paired_kept [of e]) simp_all
next
  case (capture reg e caps h timestamp reg' e' c)
  from StoreNetworkEnergy_appends [OF capture.hyps(2,3)] capture.IH show ?case
    by (simp add: paired_def)
next
  case (clear reg e caps e')
  then show ?case by (intro paired_kept [of e]) (simp_all add: ClearEnergyData_def)
next
  case (radioState reg e caps nodeID node h state timestamp node' e')
  then show ?case by (intro paired_kept [of e]) simp_all
next
  case (reassign reg e caps nodeID model ok e')
  then show ?case using SetDeviceModel_histories [OF reassign.hyps(2)]
    by (intro paired_kept [of e]) simp_all
next
  case (retitle reg e caps e' t)
  then show ?case by (intro paired_kept [of e]) (simp_all add: SetTitle_def)
qed

text \<open>
  C7 (paired histories). In every state reached from the fresh analyser by
  registering, deregistering, capturing, clearing, changing a radio state, reassigning
  a model or setting the title, the two histories have the same length, which is the
  number of captures whose batches are still held, and at every index the per-node
  history holds the batch and the network history holds the snapshot that one and the
  same capture built, the snapshot carrying the timestamp of that capture.
\<close>

theorem paired_histories:
  assumes "reachable reg e caps"
  shows "length (networkHistory e) = length (energyHistoryByNodes e) \<and>
         length caps = length (energyHistoryByNodes e) \<and>
         (\<forall>i < length caps.
            energyHistoryByNodes e ! i = capturedBatch (caps ! i) \<and>
            networkHistory e ! i = capturedSnapshot (caps ! i) \<and>
            Timestamp_nc (networkHistory e ! i) = capturedAt (caps ! i))"
proof -
  from reachable_paired [OF assms] have
    n: "networkHistory e = map capturedSnapshot caps" and
    b: "energyHistoryByNodes e = map capturedBatch caps" and
    t: "list_all (\<lambda>c. Timestamp_nc (capturedSnapshot c) = capturedAt c) caps"
    by (simp_all add: paired_def)
  have "Timestamp_nc (capturedSnapshot (caps ! i)) = capturedAt (caps ! i)" if "i < length caps" for i
    using t that by (simp add: list_all_length)
  then show ?thesis unfolding n b by simp
qed

text \<open>
  Node 1 was registered at 0, and snapshots were captured at 5 and at 9: the two
  captures built different batches, and each batch sits at the index of the snapshot
  with its timestamp.
\<close>

theorem paired_histories_witness:
  "reachable DeviceModels capturedTwice [capture5, capture9] \<and>
   length (networkHistory capturedTwice) = 2 \<and>
   length (energyHistoryByNodes capturedTwice) = 2 \<and>
   Timestamp_nc (networkHistory capturedTwice ! 0) = 5 \<and>
   energyHistoryByNodes capturedTwice ! 0 =
     [\<lparr>NodeId = 1, Disabled = 0.00000055, Sleep = 0, Tx = 0, Rx = 0\<rparr>] \<and>
   Timestamp_nc (networkHistory capturedTwice ! 1) = 9 \<and>
   energyHistoryByNodes capturedTwice ! 1 =
     [\<lparr>NodeId = 1, Disabled = 0.00000099, Sleep = 0, Tx = 0, Rx = 0\<rparr>]"
proof -
  note p = paired_histories [OF reachable_capturedTwice]
  from p have l: "length (networkHistory capturedTwice) = 2"
    "length (energyHistoryByNodes capturedTwice) = 2" by simp_all
  from p have q: "energyHistoryByNodes capturedTwice ! i = capturedBatch ([capture5, capture9] ! i) \<and>
      Timestamp_nc (networkHistory capturedTwice ! i) = capturedAt ([capture5, capture9] ! i)"
    if "i < length [capture5, capture9]" for i
    using that by blast
  from q [of 0] q [of 1] have "energyHistoryByNodes capturedTwice ! 0 =
       [\<lparr>NodeId = 1, Disabled = 0.00000055, Sleep = 0, Tx = 0, Rx = 0\<rparr>]"
    "Timestamp_nc (networkHistory capturedTwice ! 0) = 5"
    "energyHistoryByNodes capturedTwice ! 1 =
       [\<lparr>NodeId = 1, Disabled = 0.00000099, Sleep = 0, Tx = 0, Rx = 0\<rparr>]"
    "Timestamp_nc (networkHistory capturedTwice ! 1) = 9"
    by (simp_all add: capture5_def capture9_def)
  with l reachable_capturedTwice show ?thesis by blast
qed

section \<open>Network aggregator: reading the latest snapshot\<close>

text \<open>
  C5 (latest-snapshot reads). \<^verbatim>\<open>GetNetworkLatestSnap\<close> and \<^verbatim>\<open>GetLatestEnergyOfNodes\<close>
  return the last element of their history when it is not empty. On an empty history
  the index \<^verbatim>\<open>len - 1\<close> is out of range and the read panics. In a reachable state
  the two histories are empty together, so the two reads succeed or panic together.
\<close>

theorem latest_reads:
  "GetNetworkLatestSnap e =
     (if networkHistory e = [] then Inl IndexOutOfRange else Inr (last (networkHistory e))) \<and>
   GetLatestEnergyOfNodes e =
     (if energyHistoryByNodes e = [] then Inl IndexOutOfRange
      else Inr (last (energyHistoryByNodes e))) \<and>
   (reachable reg e caps \<longrightarrow> (networkHistory e = [] \<longleftrightarrow> energyHistoryByNodes e = []))"
proof -
  have "networkHistory e = [] \<longleftrightarrow> energyHistoryByNodes e = []" if "reachable reg e caps"
    using reachable_paired [OF that] by (simp add: paired_def)
  then show ?thesis
    by (simp add: GetNetworkLatestSnap_def GetLatestEnergyOfNodes_def sliceLast_eq)
qed

text \<open>After one capture both reads return what the capture stored.\<close>

theorem latest_reads_witness:
  "reachable DeviceModels capturedOnce [capture5] \<and>
   GetNetworkLatestSnap capturedOnce =
     Inr \<lparr>Timestamp_nc = 5, EnergyConsDisabled = 0.00000055, EnergyConsSleep = 0,
          EnergyConsTx = 0, EnergyConsRx = 0\<rparr> \<and>
   GetLatestEnergyOfNodes capturedOnce =
     Inr [\<lparr>NodeId = 1, Disabled = 0.00000055, Sleep = 0, Tx = 0, Rx = 0\<rparr>]"
proof -
  from latest_reads [of capturedOnce DeviceModels "[capture5]"] reachable_capturedOnce
  have "GetNetworkLatestSnap capturedOnce =
          (if networkHistory capturedOnce = [] then Inl IndexOutOfRange
           else Inr (last (networkHistory capturedOnce)))"
    and "GetLatestEnergyOfNodes capturedOnce =
          (if energyHistoryByNodes capturedOnce = [] then Inl IndexOutOfRange
           else Inr (last (energyHistoryByNodes capturedOnce)))"
    and "networkHistory capturedOnce = [] \<longleftrightarrow> energyHistoryByNodes capturedOnce = []"
    by blast+
  with reachable_capturedOnce show ?thesis by (simp add: capturedOnce_def)
qed

text \<open>The fresh analyser is a reachable state with empty histories, and both reads panic.\<close>

theorem latest_reads_counterexample:
  "reachable DeviceModels NewEnergyAnalyser [] \<and>
   GetNetworkLatestSnap NewEnergyAnalyser = Inl IndexOutOfRange \<and>
   GetLatestEnergyOfNodes NewEnergyAnalyser = Inl IndexOutOfRange"
proof -
  have "GetNetworkLatestSnap NewEnergyAnalyser = Inl IndexOutOfRange"
    and "GetLatestEnergyOfNodes NewEnergyAnalyser = Inl IndexOutOfRange"
    by (simp_all add: GetNetworkLatestSnap_def GetLatestEnergyOfNodes_def sliceLast_def
        NewEnergyAnalyser_def)
  with reachable.fresh show ?thesis by blast
qed

section \<open>Network aggregator: model reassignment\<close>

text \<open>
  \<^verbatim>\<open>SetDeviceModel\<close> of the analyser never returns true: a registered id is refused, an
  unknown model is refused, and for an unregistered id with a known model the node
  method is called on the nil pointer and its assignment panics.
\<close>

lemma SetDeviceModel_cases:
  "SetDeviceModel reg e nodeID model =
     (if map_of (nodes e) nodeID \<noteq> None then Inr (False, e)
      else if map_of reg model = None then Inr (False, e)
      else Inl NilPointerDereference)"
  by (auto simp: SetDeviceModel_def SetDeviceModel_node_def split: option.splits)

text \<open>
  C6 (model reassignment guard). On the fresh analyser, with the registry as shipped,
  reassigning the unregistered node 1 to the known model stm32wb55rg does not return
  true: it panics on the nil node. The same call for the registered node 1 of
  \<open>capturedOnce\<close> returns false and changes nothing.
\<close>

theorem SetDeviceModel_unregistered_panics:
  "map_of (nodes NewEnergyAnalyser) 1 = None \<and>
   DeviceModelExists DeviceModels ''stm32wb55rg'' \<and>
   SetDeviceModel DeviceModels NewEnergyAnalyser 1 ''stm32wb55rg'' = Inl NilPointerDereference \<and>
   SetDeviceModel DeviceModels capturedOnce 1 ''stm32wb55rg'' = Inr (False, capturedOnce)"
  by (simp add: SetDeviceModel_cases NewEnergyAnalyser_def DeviceModelExists_def DeviceModels_def
      capturedOnce_def)

end
